theory Spec2Isabelle
  imports Main "HOL-Library.Word" "HOL-Library.AList"
begin

section \<open>Data model\<close>

subsection \<open>Hashes and errors\<close>

text \<open>
  \<^verbatim>\<open>gitinterface.Hash\<close> is a fixed-width content address with a distinguished zero
  value; the repository compares hashes with \<^verbatim>\<open>==\<close> and tests \<^verbatim>\<open>IsZero()\<close>.
  The type declaration is not part of the sources at hand, so a hash is taken to be
  a 160-bit word (a SHA-1 object id), whose zero is the zero hash.
\<close>

type_synonym Hash = "160 word"

definition ZeroHash :: Hash where
  "ZeroHash = 0"

definition IsZero :: "Hash \<Rightarrow> bool" where
  "IsZero h = (h = ZeroHash)"

text \<open>
  The failure kinds of the object interface, and the sentinel errors of the packages
  \<^verbatim>\<open>repository\<close>, \<^verbatim>\<open>rsl\<close>, \<^verbatim>\<open>dev\<close> and of the transport. \<^verbatim>\<open>errors.Join\<close> keeps the
  joined errors, and \<^verbatim>\<open>errors.Is\<close> looks through a join.
\<close>

datatype failure = NotFound | AlreadyExists | Conflict | Transport | Corrupt | Other

datatype error =
    ErrCommitNotInRef
  | ErrPushingRSL
  | ErrPullingRSL
  | ErrEmptyRemoteRepository
  | ErrRSLEntryNotFound
  | ErrInvalidRSLEntry
  | ErrNoRecordOfCommit
  | ErrNotInDevMode
  | Failure failure
  | Join "error list"

fun errors_Is :: "error \<Rightarrow> error \<Rightarrow> bool" where
  "errors_Is (Join es) target = (Join es = target \<or> list_ex (\<lambda>e. errors_Is e target) es)"
| "errors_Is e target = (e = target)"

subsection \<open>Entries\<close>

record ReferenceEntry =
  ID :: Hash
  RefName :: string
  TargetID :: Hash

record AnnotationEntry =
  ID :: Hash
  RSLEntryIDs :: "Hash list"
  Skip :: bool
  Message :: string

datatype Entry = Reference ReferenceEntry | Annotation AnnotationEntry


subsection \<open>Repositories\<close>

text \<open>
  Modelled from the spec: the object store behind \<^verbatim>\<open>gitinterface.Repository\<close> is not
  part of the sources at hand. A repository holds its references, the chain of the
  RSL reference as the list of its decoded entries (newest first), the remotes it
  knows, and three capabilities of the object store: the ancestry test behind
  \<^verbatim>\<open>KnowsCommit\<close>, the content address given to a new commit (from its parent, its
  message and whether it is signed), and whether a signing key is at hand.
  A remote is seen through its references and the chain of its RSL reference.
\<close>

record Remote =
  remote_refs :: "(string \<times> Hash) list"
  remote_rsl :: "Entry list"

record Repository =
  refs :: "string \<rightharpoonup> Hash"
  rsl :: "Entry list"
  remotes :: "string \<rightharpoonup> Remote"
  ancestry :: "Hash \<Rightarrow> Hash \<Rightarrow> error + bool"
  object_id :: "Hash \<Rightarrow> string \<Rightarrow> bool \<Rightarrow> Hash"
  can_sign :: bool

definition Ref :: string where
  "Ref = ''refs/gittuf/reference-state-log''"

text \<open>
  Modelled from the spec: \<^verbatim>\<open>rsl.RemoteTrackerRef\<close> is not part of the sources at hand;
  the tracker of a remote is \<^verbatim>\<open>refs/gittuf/reference-state-log-remote/<remote>\<close>.
\<close>

definition RemoteTrackerRef :: "string \<Rightarrow> string" where
  "RemoteTrackerRef remoteName = ''refs/gittuf/reference-state-log-remote/'' @ remoteName"

section \<open>Object interface\<close>

text \<open>
  Modelled from the spec: resolving a reference fails with \<^verbatim>\<open>NotFound\<close> when the
  reference does not exist, and gives its target otherwise.
\<close>

definition GetReference :: "Repository \<Rightarrow> string \<Rightarrow> error + Hash" where
  "GetReference r refName =
     (case refs r refName of None \<Rightarrow> Inl (Failure NotFound) | Some h \<Rightarrow> Inr h)"

text \<open>
  Modelled from the spec: \<^verbatim>\<open>KnowsCommit x y\<close> asks the object store whether commit
  \<^verbatim>\<open>x\<close> has \<^verbatim>\<open>y\<close> as an ancestor.
\<close>

definition KnowsCommit :: "Repository \<Rightarrow> Hash \<Rightarrow> Hash \<Rightarrow> error + bool" where
  "KnowsCommit r commitID ancestorID = ancestry r commitID ancestorID"

text \<open>A refspec \<^verbatim>\<open>src:dst\<close> is cut at its first colon.\<close>

definition parse_refspec :: "string \<Rightarrow> string \<times> string" where
  "parse_refspec s = (takeWhile (\<lambda>c. c \<noteq> CHR '':'') s, drop 1 (dropWhile (\<lambda>c. c \<noteq> CHR '':'') s))"

text \<open>
  Modelled from the spec: a fetch of refspecs from a named remote. An unknown remote is
  a transport failure, a remote with no references at all is reported as the
  transport's empty-remote error, a source reference the remote does not have is
  \<^verbatim>\<open>NotFound\<close>. The destinations are written only when every refspec was fetched.
\<close>

fun fetch_refspecs :: "Remote \<Rightarrow> (string \<rightharpoonup> Hash) \<Rightarrow> string list \<Rightarrow> error + (string \<rightharpoonup> Hash)" where
  "fetch_refspecs rem rs [] = Inr rs"
| "fetch_refspecs rem rs (spec # specs) =
     (case parse_refspec spec of (src, dst) \<Rightarrow>
        (case map_of (remote_refs rem) src of
           None \<Rightarrow> Inl (Failure NotFound)
         | Some h \<Rightarrow> fetch_refspecs rem (rs(dst \<mapsto> h)) specs))"

definition FetchRefSpec :: "Repository \<Rightarrow> string \<Rightarrow> string list \<Rightarrow> error option \<times> Repository" where
  "FetchRefSpec r remoteName refSpecs =
     (case remotes r remoteName of
        None \<Rightarrow> (Some (Failure Transport), r)
      | Some rem \<Rightarrow>
          if remote_refs rem = [] then (Some ErrEmptyRemoteRepository, r)
          else (case fetch_refspecs rem (refs r) refSpecs of
                  Inl err \<Rightarrow> (Some err, r)
                | Inr rs \<Rightarrow> (None, r\<lparr>refs := rs\<rparr>)))"

text \<open>
  Modelled from the spec: fast-forward-only is the discipline that the new tip has the
  old tip as an ancestor. A reference that does not exist yet, or holds the zero hash,
  or already holds the new tip, can always be moved.
\<close>

definition fast_forward :: "Repository \<Rightarrow> Hash option \<Rightarrow> Hash \<Rightarrow> error + bool" where
  "fast_forward r old new =
     (case old of
        None \<Rightarrow> Inr True
      | Some h \<Rightarrow> if IsZero h \<or> h = new then Inr True else KnowsCommit r new h)"

text \<open>
  Modelled from the spec: a push of named references to a remote, fast-forward only.
  The transport rejects a push that is not a fast-forward with \<^verbatim>\<open>Conflict\<close>; with the
  RSL reference goes its chain. Nothing is written unless every reference was accepted.
\<close>

definition push_ref :: "Repository \<Rightarrow> Remote \<Rightarrow> string \<Rightarrow> error + Remote" where
  "push_ref r rem refName =
     (case refs r refName of
        None \<Rightarrow> Inl (Failure NotFound)
      | Some localTip \<Rightarrow>
          (case fast_forward r (map_of (remote_refs rem) refName) localTip of
             Inl err \<Rightarrow> Inl err
           | Inr ok \<Rightarrow>
               if ok then
                 Inr (rem\<lparr>remote_refs := AList.update refName localTip (remote_refs rem),
                          remote_rsl := (if refName = Ref then rsl r else remote_rsl rem)\<rparr>)
               else Inl (Failure Conflict)))"

fun push_refs :: "Repository \<Rightarrow> Remote \<Rightarrow> string list \<Rightarrow> error + Remote" where
  "push_refs r rem [] = Inr rem"
| "push_refs r rem (refName # refNames) =
     (case push_ref r rem refName of
        Inl err \<Rightarrow> Inl err
      | Inr rem' \<Rightarrow> push_refs r rem' refNames)"

definition Push :: "Repository \<Rightarrow> string \<Rightarrow> string list \<Rightarrow> error option \<times> Repository" where
  "Push r remoteName refNames =
     (case remotes r remoteName of
        None \<Rightarrow> (Some (Failure Transport), r)
      | Some rem \<Rightarrow>
          (case push_refs r rem refNames of
             Inl err \<Rightarrow> (Some err, r)
           | Inr rem' \<Rightarrow> (None, r\<lparr>remotes := (remotes r)(remoteName \<mapsto> rem')\<rparr>)))"

text \<open>
  Modelled from the spec: a fetch of named references from a remote into the references
  of the same name, fast-forward only when asked so.
\<close>

definition fetch_ref :: "Remote \<Rightarrow> bool \<Rightarrow> Repository \<Rightarrow> string \<Rightarrow> error + Repository" where
  "fetch_ref rem fastForwardOnly r refName =
     (case map_of (remote_refs rem) refName of
        None \<Rightarrow> Inl (Failure NotFound)
      | Some remoteTip \<Rightarrow>
          (case (if fastForwardOnly then fast_forward r (refs r refName) remoteTip else Inr True) of
             Inl err \<Rightarrow> Inl err
           | Inr ok \<Rightarrow>
               if ok then
                 Inr (r\<lparr>refs := (refs r)(refName \<mapsto> remoteTip),
                        rsl := (if refName = Ref then remote_rsl rem else rsl r)\<rparr>)
               else Inl (Failure Conflict)))"

fun fetch_refs :: "Remote \<Rightarrow> bool \<Rightarrow> Repository \<Rightarrow> string list \<Rightarrow> error + Repository" where
  "fetch_refs rem fastForwardOnly r [] = Inr r"
| "fetch_refs rem fastForwardOnly r (refName # refNames) =
     (case fetch_ref rem fastForwardOnly r refName of
        Inl err \<Rightarrow> Inl err
      | Inr r' \<Rightarrow> fetch_refs rem fastForwardOnly r' refNames)"

definition Fetch :: "Repository \<Rightarrow> string \<Rightarrow> string list \<Rightarrow> bool \<Rightarrow> error option \<times> Repository" where
  "Fetch r remoteName refNames fastForwardOnly =
     (case remotes r remoteName of
        None \<Rightarrow> (Some (Failure Transport), r)
      | Some rem \<Rightarrow>
          if remote_refs rem = [] then (Some ErrEmptyRemoteRepository, r)
          else (case fetch_refs rem fastForwardOnly r refNames of
                  Inl err \<Rightarrow> (Some err, r)
                | Inr r' \<Rightarrow> (None, r')))"

section \<open>Repository: synchronisation of the RSL\<close>

text \<open>
  \<^verbatim>\<open>CheckRemoteRSLForUpdates\<close> of \<^verbatim>\<open>internal/repository/rsl.go\<close>. It returns
  \<^verbatim>\<open>(hasUpdates, diverged, err)\<close>; the repository it leaves behind is returned with them.
  The context argument of the source is not used by its body.
\<close>

definition CheckRemoteRSLForUpdates ::
    "Repository \<Rightarrow> string \<Rightarrow> (bool \<times> bool \<times> error option) \<times> Repository" where
  "CheckRemoteRSLForUpdates r remoteName =
     (let trackerRef = RemoteTrackerRef remoteName;
          rslRemoteRefSpec = [Ref @ '':'' @ trackerRef]
      in case FetchRefSpec r remoteName rslRemoteRefSpec of
           (Some err, r1) \<Rightarrow>
             if errors_Is err ErrEmptyRemoteRepository then ((False, False, None), r1)
             else ((False, False, Some err), r1)
         | (None, r1) \<Rightarrow>
             (case GetReference r1 trackerRef of
                Inl err \<Rightarrow> ((False, False, Some err), r1)
              | Inr remoteRefState \<Rightarrow>
                  (case GetReference r1 Ref of
                     Inl err \<Rightarrow> ((False, False, Some err), r1)
                   | Inr localRefState \<Rightarrow>
                       if IsZero localRefState then ((True, False, None), r1)
                       else if remoteRefState = localRefState then ((False, False, None), r1)
                       else
                         (case KnowsCommit r1 remoteRefState localRefState of
                            Inl err \<Rightarrow> ((False, False, Some err), r1)
                          | Inr knows \<Rightarrow>
                              if knows then ((True, False, None), r1)
                              else
                                (case KnowsCommit r1 localRefState remoteRefState of
                                   Inl err \<Rightarrow> ((False, False, Some err), r1)
                                 | Inr knows' \<Rightarrow>
                                     if knows' then ((False, False, None), r1)
                                     else ((True, True, None), r1))))))"

definition PushRSL :: "Repository \<Rightarrow> string \<Rightarrow> error option \<times> Repository" where
  "PushRSL r remoteName =
     (case Push r remoteName [Ref] of
        (Some err, r') \<Rightarrow> (Some (Join [ErrPushingRSL, err]), r')
      | (None, r') \<Rightarrow> (None, r'))"

definition PullRSL :: "Repository \<Rightarrow> string \<Rightarrow> error option \<times> Repository" where
  "PullRSL r remoteName =
     (case Fetch r remoteName [Ref] True of
        (Some err, r') \<Rightarrow> (Some (Join [ErrPullingRSL, err]), r')
      | (None, r') \<Rightarrow> (None, r'))"

section \<open>Entry codec\<close>

subsection \<open>Hexadecimal form of a hash\<close>

text \<open>
  Modelled from the spec: the printable form of a hash is its forty lower-case
  hexadecimal digits, most significant first; \<^verbatim>\<open>gitinterface.NewHash\<close> reads that form
  back and fails on anything else.
\<close>

definition hex_digit :: "nat \<Rightarrow> char" where
  "hex_digit n = (if n < 10 then char_of (48 + n) else char_of (87 + n))"

definition hex_value :: "char \<Rightarrow> nat option" where
  "hex_value c =
     (let n = (of_char c :: nat)
      in if 48 \<le> n \<and> n \<le> 57 then Some (n - 48)
         else if 97 \<le> n \<and> n \<le> 102 then Some (n - 87)
         else None)"

fun hex_of_nat :: "nat \<Rightarrow> nat \<Rightarrow> string" where
  "hex_of_nat 0 n = []"
| "hex_of_nat (Suc k) n = hex_of_nat k (n div 16) @ [hex_digit (n mod 16)]"

fun nat_of_hex :: "nat \<Rightarrow> string \<Rightarrow> nat option" where
  "nat_of_hex acc [] = Some acc"
| "nat_of_hex acc (c # cs) =
     (case hex_value c of None \<Rightarrow> None | Some v \<Rightarrow> nat_of_hex (16 * acc + v) cs)"

definition Hash_String :: "Hash \<Rightarrow> string" where
  "Hash_String h = hex_of_nat 40 (unat h)"

definition NewHash :: "string \<Rightarrow> error + Hash" where
  "NewHash s =
     (if length s \<noteq> 40 then Inl (Failure Other)
      else case nat_of_hex 0 s of
             None \<Rightarrow> Inl (Failure Other)
           | Some n \<Rightarrow> Inr (of_nat n))"

subsection \<open>Base64\<close>

text \<open>
  The standard base64 encoding with padding, of the bytes of a message, and its
  decoding, which accepts the encoder's output only (no stray padding bits).
\<close>

definition b64_alphabet :: string where
  "b64_alphabet = ''ABCDEFGHIJKLMNOPQRSTUVWXYZabcdefghijklmnopqrstuvwxyz0123456789+/''"


fun index_of :: "'a \<Rightarrow> 'a list \<Rightarrow> nat option" where
  "index_of x [] = None"
| "index_of x (y # ys) = (if x = y then Some 0 else map_option Suc (index_of x ys))"

definition b64_index :: "char \<Rightarrow> nat option" where
  "b64_index c = index_of c b64_alphabet"

definition b64_pad :: char where
  "b64_pad = CHR ''=''"



fun b64_decode_bytes :: "string \<Rightarrow> nat list option" where
  "b64_decode_bytes [] = Some []"
| "b64_decode_bytes (w # x # y # z # rest) =
     (case (b64_index w, b64_index x) of
        (Some i, Some j) \<Rightarrow>
          if rest = [] \<and> z = b64_pad \<and> y = b64_pad then
            (if j mod 16 = 0 then Some [i * 4 + j div 16] else None)
          else
            (case b64_index y of
               None \<Rightarrow> None
             | Some k \<Rightarrow>
                 if rest = [] \<and> z = b64_pad then
                   (if k mod 4 = 0 then Some [i * 4 + j div 16, (j mod 16) * 16 + k div 4] else None)
                 else
                   (case b64_index z of
                      None \<Rightarrow> None
                    | Some l \<Rightarrow>
                        map_option
                          (\<lambda>bs. [i * 4 + j div 16, (j mod 16) * 16 + k div 4, (k mod 4) * 64 + l] @ bs)
                          (b64_decode_bytes rest)))
      | _ \<Rightarrow> None)"
| "b64_decode_bytes _ = None"

definition b64_decode :: "string \<Rightarrow> string option" where
  "b64_decode s = map_option (map char_of) (b64_decode_bytes s)"

subsection \<open>Lines\<close>

text \<open>\<^verbatim>\<open>strings.Join(lines, "\n")\<close> and \<^verbatim>\<open>strings.Split(text, "\n")\<close>.\<close>

definition newline :: char where
  "newline = CHR 0x0A"


fun split_lines :: "string \<Rightarrow> string list" where
  "split_lines [] = [[]]"
| "split_lines (c # cs) =
     (if c = newline then [] # split_lines cs
      else (case split_lines cs of [] \<Rightarrow> [[c]] | l # ls \<Rightarrow> (c # l) # ls))"

fun strip_prefix :: "string \<Rightarrow> string \<Rightarrow> string option" where
  "strip_prefix [] s = Some s"
| "strip_prefix (p # ps) [] = None"
| "strip_prefix (p # ps) (c # cs) = (if p = c then strip_prefix ps cs else None)"

subsection \<open>Serialization\<close>

text \<open>
  Modelled from the spec: the codec (\<^verbatim>\<open>createCommitMessage\<close>, \<^verbatim>\<open>parseRSLEntryText\<close> and the
  constants of package \<^verbatim>\<open>rsl\<close>) is not part of the sources at hand; its tests are. The
  header strings, keys, boolean literals and message delimiters are those of the
  message grammar; a line is \<^verbatim>\<open><Key>: <Value>\<close>; lines are joined by a line feed, as the
  expected messages of the tests are.
\<close>

definition ReferenceEntryHeader :: string where
  "ReferenceEntryHeader = ''RSL Reference Entry''"

definition AnnotationEntryHeader :: string where
  "AnnotationEntryHeader = ''RSL Annotation Entry''"

definition RefKey :: string where
  "RefKey = ''ref''"

definition TargetIDKey :: string where
  "TargetIDKey = ''targetID''"

definition EntryIDKey :: string where
  "EntryIDKey = ''entryID''"

definition SkipKey :: string where
  "SkipKey = ''skip''"

definition BeginMessage :: string where
  "BeginMessage = ''-----BEGIN MESSAGE-----''"

definition EndMessage :: string where
  "EndMessage = ''-----END MESSAGE-----''"






subsection \<open>Parsing\<close>

text \<open>
  Modelled from the spec: a valid message starts with a recognized header on its own
  line, followed by a blank line, followed by the key/value lines of the variant's
  schema; anything else is \<^verbatim>\<open>InvalidEntry\<close>. Only byte sequences of the grammar are
  accepted.
\<close>

definition parse_field :: "string \<Rightarrow> string \<Rightarrow> string option" where
  "parse_field k l = strip_prefix (k @ '': '') l"

definition parse_hash_field :: "string \<Rightarrow> string \<Rightarrow> Hash option" where
  "parse_hash_field k l =
     (case parse_field k l of
        None \<Rightarrow> None
      | Some v \<Rightarrow> (case NewHash v of Inl err \<Rightarrow> None | Inr h \<Rightarrow> Some h))"

definition parse_skip :: "string \<Rightarrow> bool option" where
  "parse_skip l =
     (case parse_field SkipKey l of
        None \<Rightarrow> None
      | Some v \<Rightarrow> if v = ''true'' then Some True else if v = ''false'' then Some False else None)"

fun parse_entry_ids :: "string list \<Rightarrow> Hash list \<times> string list" where
  "parse_entry_ids [] = ([], [])"
| "parse_entry_ids (l # ls) =
     (case parse_hash_field EntryIDKey l of
        None \<Rightarrow> ([], l # ls)
      | Some h \<Rightarrow> (case parse_entry_ids ls of (hs, rest) \<Rightarrow> (h # hs, rest)))"

definition parse_message_block :: "string list \<Rightarrow> string option" where
  "parse_message_block ls =
     (case ls of
        [] \<Rightarrow> Some []
      | [b, m, e] \<Rightarrow>
          if b = BeginMessage \<and> e = EndMessage then
            (case b64_decode m of
               None \<Rightarrow> None
             | Some msg \<Rightarrow> if msg = [] then None else Some msg)
          else None
      | _ \<Rightarrow> None)"

definition parseReferenceEntryText :: "Hash \<Rightarrow> string list \<Rightarrow> error + Entry" where
  "parseReferenceEntryText commitID ls =
     (case ls of
        [l1, l2] \<Rightarrow>
          (case (parse_field RefKey l1, parse_hash_field TargetIDKey l2) of
             (Some refName, Some targetID) \<Rightarrow>
               Inr (Reference \<lparr>ReferenceEntry.ID = commitID, RefName = refName, TargetID = targetID\<rparr>)
           | _ \<Rightarrow> Inl ErrInvalidRSLEntry)
      | _ \<Rightarrow> Inl ErrInvalidRSLEntry)"

definition parseAnnotationEntryText :: "Hash \<Rightarrow> string list \<Rightarrow> error + Entry" where
  "parseAnnotationEntryText commitID ls =
     (case parse_entry_ids ls of
        (entryIDs, rest) \<Rightarrow>
          if entryIDs = [] then Inl ErrInvalidRSLEntry
          else
            (case rest of
               [] \<Rightarrow> Inl ErrInvalidRSLEntry
             | l # block \<Rightarrow>
                 (case (parse_skip l, parse_message_block block) of
                    (Some skip, Some message) \<Rightarrow>
                      Inr (Annotation \<lparr>ID = commitID, RSLEntryIDs = entryIDs, Skip = skip, Message = message\<rparr>)
                  | _ \<Rightarrow> Inl ErrInvalidRSLEntry)))"

definition parseRSLEntryText :: "Hash \<Rightarrow> string \<Rightarrow> error + Entry" where
  "parseRSLEntryText commitID text =
     (case split_lines text of
        header # blank # ls \<Rightarrow>
          if blank \<noteq> [] then Inl ErrInvalidRSLEntry
          else if header = ReferenceEntryHeader then parseReferenceEntryText commitID ls
          else if header = AnnotationEntryHeader then parseAnnotationEntryText commitID ls
          else Inl ErrInvalidRSLEntry
      | _ \<Rightarrow> Inl ErrInvalidRSLEntry)"

section \<open>RSL log\<close>



definition RefersTo :: "AnnotationEntry \<Rightarrow> Hash \<Rightarrow> bool" where
  "RefersTo a entryID = (entryID \<in> set (RSLEntryIDs a))"

text \<open>
  Modelled from the spec: \<^verbatim>\<open>GetLatestEntry\<close> is the entry at the tip, \<^verbatim>\<open>GetEntry\<close> the
  entry of the chain with the given id; both are \<^verbatim>\<open>NotFound\<close> when there is none.
\<close>

definition GetLatestEntry :: "Repository \<Rightarrow> error + Entry" where
  "GetLatestEntry r = (case rsl r of [] \<Rightarrow> Inl ErrRSLEntryNotFound | e # es \<Rightarrow> Inr e)"








text \<open>
  Modelled from the spec: the annotations of the chain, newest first, and those of
  them that refer to an entry.
\<close>

fun annotations_of :: "Entry list \<Rightarrow> AnnotationEntry list" where
  "annotations_of [] = []"
| "annotations_of (Reference e # es) = annotations_of es"
| "annotations_of (Annotation a # es) = a # annotations_of es"

definition annotations_for :: "Entry list \<Rightarrow> Hash \<Rightarrow> AnnotationEntry list" where
  "annotations_for chain entryID = filter (\<lambda>a. RefersTo a entryID) (annotations_of chain)"

definition is_skipped :: "Entry list \<Rightarrow> Hash \<Rightarrow> bool" where
  "is_skipped chain entryID = list_ex Skip (annotations_for chain entryID)"

text \<open>
  Modelled from the spec: the latest unskipped entry for a reference. The walk goes
  from the newest entry to the oldest and returns the first reference entry with that
  name that is not the target of an annotation with \<^verbatim>\<open>Skip = true\<close> anywhere in the
  chain, with the annotations that refer to it.
\<close>

fun latest_unskipped ::
    "Entry list \<Rightarrow> string \<Rightarrow> Entry list \<Rightarrow> error + (ReferenceEntry \<times> AnnotationEntry list)" where
  "latest_unskipped chain refName [] = Inl ErrRSLEntryNotFound"
| "latest_unskipped chain refName (Annotation a # es) = latest_unskipped chain refName es"
| "latest_unskipped chain refName (Reference e # es) =
     (if RefName e = refName \<and> \<not> is_skipped chain (ReferenceEntry.ID e)
      then Inr (e, annotations_for chain (ReferenceEntry.ID e))
      else latest_unskipped chain refName es)"

definition GetLatestUnskippedReferenceEntryForRef ::
    "Repository \<Rightarrow> string \<Rightarrow> error + (ReferenceEntry \<times> AnnotationEntry list)" where
  "GetLatestUnskippedReferenceEntryForRef r refName = latest_unskipped (rsl r) refName (rsl r)"

text \<open>
  Modelled from the spec: the first entry for a commit. The walk goes from the newest
  entry to the oldest and keeps the oldest reference entry whose target is the commit
  or has the commit as an ancestor; with none, the commit has no record.
\<close>

fun first_covering ::
    "Repository \<Rightarrow> Hash \<Rightarrow> Entry list \<Rightarrow> ReferenceEntry option \<Rightarrow> error + ReferenceEntry option" where
  "first_covering r commitID [] found = Inr found"
| "first_covering r commitID (Annotation a # es) found = first_covering r commitID es found"
| "first_covering r commitID (Reference e # es) found =
     (if TargetID e = commitID then first_covering r commitID es (Some e)
      else
        (case KnowsCommit r (TargetID e) commitID of
           Inl err \<Rightarrow> Inl err
         | Inr knows \<Rightarrow> first_covering r commitID es (if knows then Some e else found)))"

definition GetFirstReferenceEntryForCommit ::
    "Repository \<Rightarrow> Hash \<Rightarrow> error + (ReferenceEntry \<times> AnnotationEntry list)" where
  "GetFirstReferenceEntryForCommit r commitID =
     (case first_covering r commitID (rsl r) None of
        Inl err \<Rightarrow> Inl err
      | Inr None \<Rightarrow> Inl ErrNoRecordOfCommit
      | Inr (Some e) \<Rightarrow> Inr (e, annotations_for (rsl r) (ReferenceEntry.ID e)))"


definition covers :: "Repository \<Rightarrow> ReferenceEntry \<Rightarrow> Hash \<Rightarrow> bool" where
  "covers r e commitID = (TargetID e = commitID \<or> KnowsCommit r (TargetID e) commitID = Inr True)"

section \<open>Repository: recording entries\<close>






section \<open>Assertions of the tests\<close>

text \<open>
  What \<^verbatim>\<open>assert.ErrorIs(t, err, sentinel)\<close> checks of a returned error: there is an
  error, and it matches the sentinel.
\<close>

definition fails_with :: "error option \<Rightarrow> error \<Rightarrow> bool" where
  "fails_with res sentinel = (case res of None \<Rightarrow> False | Some err \<Rightarrow> errors_Is err sentinel)"

section \<open>Example repositories\<close>

text \<open>
  Two ancestry relations on small commit ids: a line of history in which commit 2 is
  the child of commit 1, and unrelated histories.
\<close>

definition linear_history :: "Hash \<Rightarrow> Hash \<Rightarrow> error + bool" where
  "linear_history x y = Inr (x = y \<or> (x = 2 \<and> y = 1))"

definition unrelated_history :: "Hash \<Rightarrow> Hash \<Rightarrow> error + bool" where
  "unrelated_history x y = Inr (x = y)"

definition counting_object_id :: "Hash \<Rightarrow> string \<Rightarrow> bool \<Rightarrow> Hash" where
  "counting_object_id parent message sig = parent + 1"

text \<open>
  A repository whose RSL tip is \<open>localTip\<close>, with a remote \<^verbatim>\<open>origin\<close> whose RSL tip is
  \<open>remoteTip\<close>.
\<close>

definition sync_repository :: "Hash \<Rightarrow> Hash \<Rightarrow> (Hash \<Rightarrow> Hash \<Rightarrow> error + bool) \<Rightarrow> Repository" where
  "sync_repository localTip remoteTip anc =
     \<lparr>refs = [Ref \<mapsto> localTip], rsl = [],
      remotes = [''origin'' \<mapsto> \<lparr>remote_refs = [(Ref, remoteTip)], remote_rsl = []\<rparr>],
      ancestry = anc, object_id = counting_object_id, can_sign = False\<rparr>"

text \<open>A repository with a remote \<^verbatim>\<open>origin\<close> that has no references at all.\<close>

definition empty_remote_repository :: Repository where
  "empty_remote_repository =
     \<lparr>refs = Map.empty, rsl = [],
      remotes = [''origin'' \<mapsto> \<lparr>remote_refs = [], remote_rsl = []\<rparr>],
      ancestry = unrelated_history, object_id = counting_object_id, can_sign = False\<rparr>"

text \<open>
  A repository that has no RSL reference yet, with a remote \<^verbatim>\<open>origin\<close> whose RSL tip is
  commit 1.
\<close>

definition absent_local_repository :: Repository where
  "absent_local_repository =
     \<lparr>refs = Map.empty, rsl = [],
      remotes = [''origin'' \<mapsto> \<lparr>remote_refs = [(Ref, 1)], remote_rsl = []\<rparr>],
      ancestry = unrelated_history, object_id = counting_object_id, can_sign = False\<rparr>"

text \<open>A repository that knows no remote.\<close>

definition no_remote_repository :: Repository where
  "no_remote_repository =
     \<lparr>refs = [Ref \<mapsto> 1], rsl = [],
      remotes = Map.empty,
      ancestry = unrelated_history, object_id = counting_object_id, can_sign = False\<rparr>"

text \<open>
  A repository with the given references and RSL chain and no remote; new commits are
  numbered after their parent.
\<close>

definition log_repository ::
    "(string \<rightharpoonup> Hash) \<Rightarrow> Entry list \<Rightarrow> (Hash \<Rightarrow> Hash \<Rightarrow> error + bool) \<Rightarrow> Repository" where
  "log_repository rs chain anc =
     \<lparr>refs = rs, rsl = chain, remotes = Map.empty,
      ancestry = anc, object_id = counting_object_id, can_sign = False\<rparr>"

definition main_entry :: "Hash \<Rightarrow> Hash \<Rightarrow> ReferenceEntry" where
  "main_entry entryID targetID =
     \<lparr>ReferenceEntry.ID = entryID, RefName = ''refs/heads/main'', TargetID = targetID\<rparr>"

definition feature_entry :: "Hash \<Rightarrow> Hash \<Rightarrow> ReferenceEntry" where
  "feature_entry entryID targetID =
     \<lparr>ReferenceEntry.ID = entryID, RefName = ''refs/heads/feature'', TargetID = targetID\<rparr>"

definition revoke :: "Hash \<Rightarrow> Hash \<Rightarrow> AnnotationEntry" where
  "revoke entryID target =
     \<lparr>AnnotationEntry.ID = entryID, RSLEntryIDs = [target], Skip = True, Message = ''revoke''\<rparr>"

text \<open>
  Three entries for the same reference, then the newest of them skipped, then all of
  them skipped.
\<close>

definition three_entries :: "Entry list" where
  "three_entries = [Reference (main_entry 3 0), Reference (main_entry 2 0), Reference (main_entry 1 0)]"

definition newest_skipped :: Repository where
  "newest_skipped = log_repository Map.empty (Annotation (revoke 4 3) # three_entries) unrelated_history"

definition all_skipped :: Repository where
  "all_skipped =
     log_repository Map.empty
       (Annotation (revoke 6 1) # Annotation (revoke 5 2) # Annotation (revoke 4 3) # three_entries)
       unrelated_history"

text \<open>
  Commit 2 is the child of commit 1; both the main and the feature branch were
  recorded at commit 2, main first.
\<close>

definition two_branches :: Repository where
  "two_branches =
     log_repository Map.empty [Reference (feature_entry 11 2), Reference (main_entry 10 2)] linear_history"



section \<open>Properties of the synchronisation\<close>

lemma parse_refspec_Ref [simp]:
  "parse_refspec (Ref @ CHR '':'' # t) = (Ref, t)"
  by (simp add: parse_refspec_def Ref_def)

lemma RemoteTrackerRef_neq_Ref [simp]:
  "RemoteTrackerRef remoteName \<noteq> Ref" "Ref \<noteq> RemoteTrackerRef remoteName"
  by (auto simp: RemoteTrackerRef_def Ref_def)

lemma FetchRefSpec_tracker:
  "FetchRefSpec r remoteName [Ref @ '':'' @ t] = (res, r1) \<Longrightarrow>
     (res \<noteq> None \<and> r1 = r) \<or> (\<exists>h. res = None \<and> r1 = r\<lparr>refs := (refs r)(t \<mapsto> h)\<rparr>)"
  by (auto simp: FetchRefSpec_def split: option.splits if_splits sum.splits)

lemma CheckRemote_snd:
  "snd (CheckRemoteRSLForUpdates r remoteName) =
     snd (FetchRefSpec r remoteName [Ref @ '':'' @ RemoteTrackerRef remoteName])"
  by (simp add: CheckRemoteRSLForUpdates_def Let_def split: prod.splits option.splits sum.splits)

lemma sync_fetch2:
  "FetchRefSpec (sync_repository l t anc) ''origin'' [Ref @ CHR '':'' # RemoteTrackerRef ''origin'']
     = (None, (sync_repository l t anc)\<lparr>refs := [Ref \<mapsto> l, RemoteTrackerRef ''origin'' \<mapsto> t]\<rparr>)"
  by (simp add: FetchRefSpec_def sync_repository_def)

lemma sync_lookup:
  "GetReference ((sync_repository l t anc)\<lparr>refs := [Ref \<mapsto> l, RemoteTrackerRef ''origin'' \<mapsto> t]\<rparr>) Ref = Inr l"
  "GetReference ((sync_repository l t anc)\<lparr>refs := [Ref \<mapsto> l, RemoteTrackerRef ''origin'' \<mapsto> t]\<rparr>) (RemoteTrackerRef ''origin'') = Inr t"
  "KnowsCommit ((sync_repository l t anc)\<lparr>refs := rs\<rparr>) x y = anc x y"
  by (simp_all add: GetReference_def KnowsCommit_def sync_repository_def)

subsection \<open>Classification of local against remote\<close>

text \<open>
  What the code returns, case by case. A remote with no references at all gives
  \<open>(False, False)\<close> without error. After a fetch that succeeded, with the tracker
  resolving to \<open>remoteTip\<close> and the RSL reference resolving to \<open>localTip\<close>: a local
  tip that is the zero hash and a tracker tip that is not give \<open>(True, False)\<close>; equal
  tips give \<open>(False, False)\<close>; a local tip that is a proper ancestor of the tracker tip
  gives \<open>(True, False)\<close>; a tracker tip that is a proper ancestor of the local tip
  (which is not one of the tracker tip) gives \<open>(False, False)\<close>; tips of which neither
  is an ancestor of the other give \<open>(True, True)\<close>. None of these sets an error.
\<close>

theorem CheckRemoteRSLForUpdates_table:
  "(remotes r remoteName = Some rem \<and> remote_refs rem = [] \<longrightarrow>
      CheckRemoteRSLForUpdates r remoteName = ((False, False, None), r)) \<and>
   (FetchRefSpec r remoteName [Ref @ '':'' @ RemoteTrackerRef remoteName] = (None, r1) \<and>
    GetReference r1 (RemoteTrackerRef remoteName) = Inr remoteTip \<and>
    GetReference r1 Ref = Inr localTip \<longrightarrow>
      (IsZero localTip \<and> \<not> IsZero remoteTip \<longrightarrow>
         CheckRemoteRSLForUpdates r remoteName = ((True, False, None), r1)) \<and>
      (\<not> IsZero localTip \<and> remoteTip = localTip \<longrightarrow>
         CheckRemoteRSLForUpdates r remoteName = ((False, False, None), r1)) \<and>
      (\<not> IsZero localTip \<and> remoteTip \<noteq> localTip \<and>
       KnowsCommit r1 remoteTip localTip = Inr True \<longrightarrow>
         CheckRemoteRSLForUpdates r remoteName = ((True, False, None), r1)) \<and>
      (\<not> IsZero localTip \<and> remoteTip \<noteq> localTip \<and>
       KnowsCommit r1 remoteTip localTip = Inr False \<and>
       KnowsCommit r1 localTip remoteTip = Inr True \<longrightarrow>
         CheckRemoteRSLForUpdates r remoteName = ((False, False, None), r1)) \<and>
      (\<not> IsZero localTip \<and> remoteTip \<noteq> localTip \<and>
       KnowsCommit r1 remoteTip localTip = Inr False \<and>
       KnowsCommit r1 localTip remoteTip = Inr False \<longrightarrow>
         CheckRemoteRSLForUpdates r remoteName = ((True, True, None), r1)))"
  by (simp add: CheckRemoteRSLForUpdates_def Let_def FetchRefSpec_def)

theorem CheckRemoteRSLForUpdates_table_examples:
  "CheckRemoteRSLForUpdates empty_remote_repository ''origin'' = ((False, False, None), empty_remote_repository) \<and>
   fst (CheckRemoteRSLForUpdates (sync_repository 0 1 linear_history) ''origin'') = (True, False, None) \<and>
   fst (CheckRemoteRSLForUpdates (sync_repository 1 1 linear_history) ''origin'') = (False, False, None) \<and>
   fst (CheckRemoteRSLForUpdates (sync_repository 1 2 linear_history) ''origin'') = (True, False, None) \<and>
   fst (CheckRemoteRSLForUpdates (sync_repository 2 1 linear_history) ''origin'') = (False, False, None) \<and>
   fst (CheckRemoteRSLForUpdates (sync_repository 2 1 unrelated_history) ''origin'') = (True, True, None)"
proof -
  have e: "remotes empty_remote_repository ''origin'' = Some \<lparr>remote_refs = [], remote_rsl = []\<rparr>"
    by (simp add: empty_remote_repository_def)
  have w0: "CheckRemoteRSLForUpdates empty_remote_repository ''origin'' = ((False, False, None), empty_remote_repository)"
    using CheckRemoteRSLForUpdates_table [of empty_remote_repository "''origin''"
        "\<lparr>remote_refs = [], remote_rsl = []\<rparr>" empty_remote_repository 0 0] e
    by simp
  have w1: "fst (CheckRemoteRSLForUpdates (sync_repository 0 1 linear_history) ''origin'') = (True, False, None)"
    using CheckRemoteRSLForUpdates_table [of "sync_repository 0 1 linear_history" "''origin''"
       "\<lparr>remote_refs = [], remote_rsl = []\<rparr>"
       "(sync_repository 0 1 linear_history)\<lparr>refs := [Ref \<mapsto> 0, RemoteTrackerRef ''origin'' \<mapsto> 1]\<rparr>" 1 0]
    by (simp add: sync_fetch2 sync_lookup IsZero_def ZeroHash_def)
  have w2: "fst (CheckRemoteRSLForUpdates (sync_repository 1 1 linear_history) ''origin'') = (False, False, None)"
    using CheckRemoteRSLForUpdates_table [of "sync_repository 1 1 linear_history" "''origin''"
       "\<lparr>remote_refs = [], remote_rsl = []\<rparr>"
       "(sync_repository 1 1 linear_history)\<lparr>refs := [Ref \<mapsto> 1, RemoteTrackerRef ''origin'' \<mapsto> 1]\<rparr>" 1 1]
    by (simp add: sync_fetch2 sync_lookup IsZero_def ZeroHash_def)
  have w3: "fst (CheckRemoteRSLForUpdates (sync_repository 1 2 linear_history) ''origin'') = (True, False, None)"
    using CheckRemoteRSLForUpdates_table [of "sync_repository 1 2 linear_history" "''origin''"
       "\<lparr>remote_refs = [], remote_rsl = []\<rparr>"
       "(sync_repository 1 2 linear_history)\<lparr>refs := [Ref \<mapsto> 1, RemoteTrackerRef ''origin'' \<mapsto> 2]\<rparr>" 2 1]
    by (simp add: sync_fetch2 sync_lookup IsZero_def ZeroHash_def linear_history_def)
  have w4: "fst (CheckRemoteRSLForUpdates (sync_repository 2 1 linear_history) ''origin'') = (False, False, None)"
    using CheckRemoteRSLForUpdates_table [of "sync_repository 2 1 linear_history" "''origin''"
       "\<lparr>remote_refs = [], remote_rsl = []\<rparr>"
       "(sync_repository 2 1 linear_history)\<lparr>refs := [Ref \<mapsto> 2, RemoteTrackerRef ''origin'' \<mapsto> 1]\<rparr>" 1 2]
    by (simp add: sync_fetch2 sync_lookup IsZero_def ZeroHash_def linear_history_def)
  have w5: "fst (CheckRemoteRSLForUpdates (sync_repository 2 1 unrelated_history) ''origin'') = (True, True, None)"
    using CheckRemoteRSLForUpdates_table [of "sync_repository 2 1 unrelated_history" "''origin''"
       "\<lparr>remote_refs = [], remote_rsl = []\<rparr>"
       "(sync_repository 2 1 unrelated_history)\<lparr>refs := [Ref \<mapsto> 2, RemoteTrackerRef ''origin'' \<mapsto> 1]\<rparr>" 1 2]
    by (simp add: sync_fetch2 sync_lookup IsZero_def ZeroHash_def unrelated_history_def)
  from w0 w1 w2 w3 w4 w5 show ?thesis by blast
qed

text \<open>
  When the RSL reference does not resolve after the fetch, the error of the lookup is
  returned with \<open>(False, False)\<close>, whatever the tracker holds: the test of the zero
  hash comes after the lookup.
\<close>

lemma CheckRemoteRSLForUpdates_local_lookup_fails:
  "FetchRefSpec r remoteName [Ref @ '':'' @ RemoteTrackerRef remoteName] = (None, r1) \<Longrightarrow>
   GetReference r1 (RemoteTrackerRef remoteName) = Inr remoteTip \<Longrightarrow>
   GetReference r1 Ref = Inl err \<Longrightarrow>
     CheckRemoteRSLForUpdates r remoteName = ((False, False, Some err), r1)"
  by (simp add: CheckRemoteRSLForUpdates_def Let_def)

text \<open>
  C1 does not hold of the code. The claim classifies an empty local log against a
  non-empty remote log as \<open>(True, False)\<close>, the row of the initial synchronisation. A
  repository that has no RSL reference yet has an empty log, and resolving its RSL
  reference fails with \<^verbatim>\<open>NotFound\<close>. With a remote whose RSL tip is commit 1, the fetch
  succeeds and sets the tracker to commit 1, the lookup of the local RSL reference
  fails, and \<^verbatim>\<open>CheckRemoteRSLForUpdates\<close> returns \<open>(False, False)\<close> with that error:
  the test \<^verbatim>\<open>localRefState.IsZero()\<close>, which the code has for a local RSL that has not
  been populated, is not reached.
\<close>

theorem CheckRemoteRSLForUpdates_absent_local:
  "GetReference absent_local_repository Ref = Inl (Failure NotFound) \<and>
   fst (FetchRefSpec absent_local_repository ''origin'' [Ref @ '':'' @ RemoteTrackerRef ''origin'']) = None \<and>
   GetReference (snd (CheckRemoteRSLForUpdates absent_local_repository ''origin''))
     (RemoteTrackerRef ''origin'') = Inr 1 \<and>
   fst (CheckRemoteRSLForUpdates absent_local_repository ''origin'')
     = (False, False, Some (Failure NotFound)) \<and>
   fst (CheckRemoteRSLForUpdates absent_local_repository ''origin'') \<noteq> (True, False, None)"
  by (simp add: CheckRemoteRSLForUpdates_def Let_def FetchRefSpec_def absent_local_repository_def
      GetReference_def)

text \<open>
  The same test does not look at the tracker tip, which the code takes to be non-zero
  there. When the RSL reference of the repository and of its remote both hold the zero
  hash, the fetch succeeds, both tips are the zero hash, and the result is
  \<open>(True, False)\<close>, not the \<open>(False, False)\<close> of two empty logs.
\<close>

theorem CheckRemoteRSLForUpdates_zero_tips:
  "GetReference (snd (CheckRemoteRSLForUpdates (sync_repository ZeroHash ZeroHash unrelated_history) ''origin'')) Ref = Inr ZeroHash \<and>
   GetReference (snd (CheckRemoteRSLForUpdates (sync_repository ZeroHash ZeroHash unrelated_history) ''origin'')) (RemoteTrackerRef ''origin'') = Inr ZeroHash \<and>
   fst (CheckRemoteRSLForUpdates (sync_repository ZeroHash ZeroHash unrelated_history) ''origin'') = (True, False, None)"
  by (simp add: CheckRemoteRSLForUpdates_def Let_def FetchRefSpec_def sync_repository_def GetReference_def IsZero_def)

subsection \<open>What the check writes\<close>

text \<open>
  C10: for every remote name and every repository, \<^verbatim>\<open>CheckRemoteRSLForUpdates\<close> leaves
  the local RSL reference as it was; every reference other than the tracker of that
  remote keeps its target, and the chain of the RSL and the remotes are untouched,
  whatever the result.
\<close>

theorem CheckRemoteRSLForUpdates_frame:
  "refs (snd (CheckRemoteRSLForUpdates r remoteName)) Ref = refs r Ref \<and>
   (\<forall>refName. refName \<noteq> RemoteTrackerRef remoteName \<longrightarrow>
        refs (snd (CheckRemoteRSLForUpdates r remoteName)) refName = refs r refName) \<and>
   rsl (snd (CheckRemoteRSLForUpdates r remoteName)) = rsl r \<and>
   remotes (snd (CheckRemoteRSLForUpdates r remoteName)) = remotes r"
proof -
  obtain res r1 where f: "FetchRefSpec r remoteName [Ref @ '':'' @ RemoteTrackerRef remoteName] = (res, r1)"
    by (cases "FetchRefSpec r remoteName [Ref @ '':'' @ RemoteTrackerRef remoteName]")
  have s: "snd (CheckRemoteRSLForUpdates r remoteName) = r1"
    using f by (simp add: CheckRemote_snd)
  from FetchRefSpec_tracker [OF f] show ?thesis
    unfolding s by auto
qed

theorem CheckRemoteRSLForUpdates_frame_witness:
  "''refs/heads/main'' \<noteq> RemoteTrackerRef ''origin'' \<and>
   refs (snd (CheckRemoteRSLForUpdates (sync_repository 1 2 linear_history) ''origin'')) ''refs/heads/main''
     = refs (sync_repository 1 2 linear_history) ''refs/heads/main'' \<and>
   refs (snd (CheckRemoteRSLForUpdates (sync_repository 1 2 linear_history) ''origin'')) Ref
     = refs (sync_repository 1 2 linear_history) Ref"
proof -
  have n: "''refs/heads/main'' \<noteq> RemoteTrackerRef ''origin''"
    by (simp add: RemoteTrackerRef_def)
  from n CheckRemoteRSLForUpdates_frame [of "sync_repository 1 2 linear_history" "''origin''"]
  show ?thesis by blast
qed

subsection \<open>Push and pull\<close>

lemma PushRSL_fst:
  "fst (PushRSL r remoteName) = map_option (\<lambda>err. Join [ErrPushingRSL, err]) (fst (Push r remoteName [Ref]))"
  by (simp add: PushRSL_def split: prod.splits option.splits)

lemma PullRSL_fst:
  "fst (PullRSL r remoteName) = map_option (\<lambda>err. Join [ErrPullingRSL, err]) (fst (Fetch r remoteName [Ref] True))"
  by (simp add: PullRSL_def split: prod.splits option.splits)

lemma PushRSL_snd: "snd (PushRSL r remoteName) = snd (Push r remoteName [Ref])"
  by (simp add: PushRSL_def split: prod.splits option.splits)

lemma PullRSL_snd: "snd (PullRSL r remoteName) = snd (Fetch r remoteName [Ref] True)"
  by (simp add: PullRSL_def split: prod.splits option.splits)

lemma Push_Ref_cases:
  "(fst (Push r remoteName [Ref]) \<noteq> None \<and> snd (Push r remoteName [Ref]) = r) \<or>
   (\<exists>rem localTip. fst (Push r remoteName [Ref]) = None \<and> remotes r remoteName = Some rem \<and>
       refs r Ref = Some localTip \<and>
       snd (Push r remoteName [Ref]) =
         r\<lparr>remotes := (remotes r)(remoteName \<mapsto>
              rem\<lparr>remote_refs := AList.update Ref localTip (remote_refs rem), remote_rsl := rsl r\<rparr>)\<rparr>)"
  by (auto simp: Push_def push_ref_def split: option.splits sum.splits if_splits)

lemma Fetch_Ref_cases:
  "(fst (Fetch r remoteName [Ref] True) \<noteq> None \<and> snd (Fetch r remoteName [Ref] True) = r) \<or>
   (\<exists>rem remoteTip. fst (Fetch r remoteName [Ref] True) = None \<and> remotes r remoteName = Some rem \<and>
       map_of (remote_refs rem) Ref = Some remoteTip \<and>
       snd (Fetch r remoteName [Ref] True) =
         r\<lparr>refs := (refs r)(Ref \<mapsto> remoteTip), rsl := remote_rsl rem\<rparr>)"
  by (auto simp: Fetch_def fetch_ref_def split: option.splits sum.splits if_splits)

lemma Push_diverged:
  "\<lbrakk>remotes r remoteName = Some rem; refs r Ref = Some localTip;
    map_of (remote_refs rem) Ref = Some remoteTip; \<not> IsZero remoteTip; remoteTip \<noteq> localTip;
    KnowsCommit r localTip remoteTip = Inr False\<rbrakk>
   \<Longrightarrow> Push r remoteName [Ref] = (Some (Failure Conflict), r)"
  by (simp add: Push_def push_ref_def fast_forward_def)

lemma Fetch_diverged:
  "\<lbrakk>remotes r remoteName = Some rem; refs r Ref = Some localTip;
    map_of (remote_refs rem) Ref = Some remoteTip; \<not> IsZero localTip; remoteTip \<noteq> localTip;
    KnowsCommit r remoteTip localTip = Inr False\<rbrakk>
   \<Longrightarrow> Fetch r remoteName [Ref] True = (Some (Failure Conflict), r)"
  by (auto simp: Fetch_def fetch_ref_def fast_forward_def)

text \<open>
  C7, as the code has it. \<^verbatim>\<open>PushRSL\<close> fails with an error matching \<^verbatim>\<open>ErrPushingRSL\<close>
  exactly when the push of the RSL reference fails, for whatever reason, and succeeds
  exactly when the push does; likewise \<^verbatim>\<open>PullRSL\<close>, \<^verbatim>\<open>ErrPullingRSL\<close> and the
  fast-forward-only fetch. When the local and the remote RSL have diverged, the
  transport rejects both and both fail with their sentinel. Neither merges: a failure
  leaves the repository as it was, a successful push sets the remote's RSL to the
  local one, a successful pull sets the local RSL to the remote one.
\<close>

theorem PushRSL_PullRSL_sentinels:
  "(fails_with (fst (PushRSL r remoteName)) ErrPushingRSL \<longleftrightarrow> fst (Push r remoteName [Ref]) \<noteq> None) \<and>
   (fst (PushRSL r remoteName) = None \<longleftrightarrow> fst (Push r remoteName [Ref]) = None) \<and>
   (fails_with (fst (PullRSL r remoteName)) ErrPullingRSL \<longleftrightarrow> fst (Fetch r remoteName [Ref] True) \<noteq> None) \<and>
   (fst (PullRSL r remoteName) = None \<longleftrightarrow> fst (Fetch r remoteName [Ref] True) = None) \<and>
   (remotes r remoteName = Some rem \<and> refs r Ref = Some localTip \<and>
    map_of (remote_refs rem) Ref = Some remoteTip \<and>
    \<not> IsZero localTip \<and> \<not> IsZero remoteTip \<and> remoteTip \<noteq> localTip \<and>
    KnowsCommit r localTip remoteTip = Inr False \<and> KnowsCommit r remoteTip localTip = Inr False \<longrightarrow>
      PushRSL r remoteName = (Some (Join [ErrPushingRSL, Failure Conflict]), r) \<and>
      PullRSL r remoteName = (Some (Join [ErrPullingRSL, Failure Conflict]), r) \<and>
      fails_with (fst (PushRSL r remoteName)) ErrPushingRSL \<and>
      fails_with (fst (PullRSL r remoteName)) ErrPullingRSL) \<and>
   (fst (PushRSL r remoteName) \<noteq> None \<longrightarrow> snd (PushRSL r remoteName) = r) \<and>
   (fst (PullRSL r remoteName) \<noteq> None \<longrightarrow> snd (PullRSL r remoteName) = r) \<and>
   (fst (PushRSL r remoteName) = None \<longrightarrow>
      (\<exists>rem' localTip'. remotes r remoteName = Some rem' \<and> refs r Ref = Some localTip' \<and>
         snd (PushRSL r remoteName) =
           r\<lparr>remotes := (remotes r)(remoteName \<mapsto>
                rem'\<lparr>remote_refs := AList.update Ref localTip' (remote_refs rem'), remote_rsl := rsl r\<rparr>)\<rparr>)) \<and>
   (fst (PullRSL r remoteName) = None \<longrightarrow>
      (\<exists>rem' remoteTip'. remotes r remoteName = Some rem' \<and> map_of (remote_refs rem') Ref = Some remoteTip' \<and>
         snd (PullRSL r remoteName) = r\<lparr>refs := (refs r)(Ref \<mapsto> remoteTip'), rsl := remote_rsl rem'\<rparr>))"
proof -
  have a: "fails_with (fst (PushRSL r remoteName)) ErrPushingRSL \<longleftrightarrow> fst (Push r remoteName [Ref]) \<noteq> None"
    by (cases "fst (Push r remoteName [Ref])") (simp_all add: PushRSL_fst fails_with_def)
  have b: "fails_with (fst (PullRSL r remoteName)) ErrPullingRSL \<longleftrightarrow> fst (Fetch r remoteName [Ref] True) \<noteq> None"
    by (cases "fst (Fetch r remoteName [Ref] True)") (simp_all add: PullRSL_fst fails_with_def)
  have c: "fst (PushRSL r remoteName) = None \<longleftrightarrow> fst (Push r remoteName [Ref]) = None"
    by (simp add: PushRSL_fst)
  have d: "fst (PullRSL r remoteName) = None \<longleftrightarrow> fst (Fetch r remoteName [Ref] True) = None"
    by (simp add: PullRSL_fst)
  have e: "PushRSL r remoteName = (Some (Join [ErrPushingRSL, Failure Conflict]), r) \<and>
      PullRSL r remoteName = (Some (Join [ErrPullingRSL, Failure Conflict]), r) \<and>
      fails_with (fst (PushRSL r remoteName)) ErrPushingRSL \<and>
      fails_with (fst (PullRSL r remoteName)) ErrPullingRSL"
    if "remotes r remoteName = Some rem" "refs r Ref = Some localTip"
       "map_of (remote_refs rem) Ref = Some remoteTip"
       "\<not> IsZero localTip" "\<not> IsZero remoteTip" "remoteTip \<noteq> localTip"
       "KnowsCommit r localTip remoteTip = Inr False" "KnowsCommit r remoteTip localTip = Inr False"
    using Push_diverged [OF that(1,2,3,5,6,7)] Fetch_diverged [OF that(1,2,3,4,6,8)]
    by (simp add: PushRSL_def PullRSL_def fails_with_def)
  have f: "fst (PushRSL r remoteName) \<noteq> None \<longrightarrow> snd (PushRSL r remoteName) = r"
    using Push_Ref_cases [of r remoteName] by (auto simp: PushRSL_fst PushRSL_snd)
  have g: "fst (PullRSL r remoteName) \<noteq> None \<longrightarrow> snd (PullRSL r remoteName) = r"
    using Fetch_Ref_cases [of r remoteName] by (auto simp: PullRSL_fst PullRSL_snd)
  have h: "fst (PushRSL r remoteName) = None \<longrightarrow>
      (\<exists>rem' localTip'. remotes r remoteName = Some rem' \<and> refs r Ref = Some localTip' \<and>
         snd (PushRSL r remoteName) =
           r\<lparr>remotes := (remotes r)(remoteName \<mapsto>
                rem'\<lparr>remote_refs := AList.update Ref localTip' (remote_refs rem'), remote_rsl := rsl r\<rparr>)\<rparr>)"
    using Push_Ref_cases [of r remoteName] by (auto simp: PushRSL_fst PushRSL_snd)
  have i: "fst (PullRSL r remoteName) = None \<longrightarrow>
      (\<exists>rem' remoteTip'. remotes r remoteName = Some rem' \<and> map_of (remote_refs rem') Ref = Some remoteTip' \<and>
         snd (PullRSL r remoteName) = r\<lparr>refs := (refs r)(Ref \<mapsto> remoteTip'), rsl := remote_rsl rem'\<rparr>)"
    using Fetch_Ref_cases [of r remoteName] by (auto simp: PullRSL_fst PullRSL_snd)
  from a b c d e f g h i show ?thesis by blast
qed

theorem PushRSL_PullRSL_sentinels_witness:
  "remotes (sync_repository 2 1 unrelated_history) ''origin'' = Some \<lparr>remote_refs = [(Ref, 1)], remote_rsl = []\<rparr> \<and>
   refs (sync_repository 2 1 unrelated_history) Ref = Some 2 \<and>
   KnowsCommit (sync_repository 2 1 unrelated_history) 2 1 = Inr False \<and>
   KnowsCommit (sync_repository 2 1 unrelated_history) 1 2 = Inr False \<and>
   PushRSL (sync_repository 2 1 unrelated_history) ''origin'' =
     (Some (Join [ErrPushingRSL, Failure Conflict]), sync_repository 2 1 unrelated_history) \<and>
   PullRSL (sync_repository 2 1 unrelated_history) ''origin'' =
     (Some (Join [ErrPullingRSL, Failure Conflict]), sync_repository 2 1 unrelated_history)"
  using PushRSL_PullRSL_sentinels [of "sync_repository 2 1 unrelated_history" "''origin''"
      "\<lparr>remote_refs = [(Ref, 1)], remote_rsl = []\<rparr>" 2 1]
  by (simp add: sync_repository_def KnowsCommit_def unrelated_history_def IsZero_def ZeroHash_def)

text \<open>
  C7 says that the sentinel is returned exactly when the transport rejects a push that
  is not a fast-forward. A repository that does not know the remote is a
  counterexample: the push fails in the transport, nothing was rejected as a
  non-fast-forward, and \<^verbatim>\<open>PushRSL\<close> fails with an error matching \<^verbatim>\<open>ErrPushingRSL\<close>.
\<close>

theorem PushRSL_sentinel_counterexample:
  "PushRSL no_remote_repository ''origin'' = (Some (Join [ErrPushingRSL, Failure Transport]), no_remote_repository) \<and>
   fails_with (fst (PushRSL no_remote_repository ''origin'')) ErrPushingRSL \<and>
   Push no_remote_repository ''origin'' [Ref] \<noteq> (Some (Failure Conflict), no_remote_repository)"
  by (simp add: PushRSL_def Push_def no_remote_repository_def fails_with_def)

section \<open>Properties of the hexadecimal form\<close>

lemma hex_value_hex_digit: "n < 16 \<Longrightarrow> hex_value (hex_digit n) = Some n"
  by (auto simp: hex_value_def hex_digit_def Let_def)

lemma length_hex_of_nat [simp]: "length (hex_of_nat k n) = k"
  by (induction k arbitrary: n) auto

lemma nat_of_hex_append:
  "nat_of_hex acc (xs @ ys) = (case nat_of_hex acc xs of None \<Rightarrow> None | Some a \<Rightarrow> nat_of_hex a ys)"
  by (induction xs arbitrary: acc) (auto split: option.splits)

lemma nat_of_hex_hex_of_nat:
  "nat_of_hex acc (hex_of_nat k n) = Some (acc * 16 ^ k + n mod 16 ^ k)"
proof (induction k arbitrary: n acc)
  case 0
  then show ?case by simp
next
  case (Suc k)
  have "n mod 16 ^ Suc k = 16 * (n div 16 mod 16 ^ k) + n mod 16"
    by (simp add: mod_mult2_eq)
  then show ?case
    by (simp add: nat_of_hex_append Suc.IH hex_value_hex_digit algebra_simps)
qed

lemma NewHash_Hash_String [simp]: "NewHash (Hash_String h) = Inr h"
proof -
  have "unat h < 2 ^ 160" using unsigned_less [of h] by simp
  also have "(2::nat) ^ 160 = 16 ^ 40" by simp
  finally have "unat h mod 16 ^ 40 = unat h" by simp
  then show ?thesis
    by (simp add: NewHash_def Hash_String_def nat_of_hex_hex_of_nat)
qed

section \<open>Properties of the RSL log\<close>

subsection \<open>Skipped entries\<close>

lemma set_annotations_of: "set (annotations_of es) = {a. Annotation a \<in> set es}"
  by (induction es rule: annotations_of.induct) auto

lemma is_skipped_iff:
  "is_skipped chain h \<longleftrightarrow> (\<exists>a. Annotation a \<in> set chain \<and> Skip a \<and> h \<in> set (RSLEntryIDs a))"
  by (auto simp: is_skipped_def annotations_for_def list_ex_iff set_annotations_of RefersTo_def)

lemma latest_unskipped_Inr:
  "latest_unskipped chain refName es = Inr (e, anns) \<Longrightarrow>
     Reference e \<in> set es \<and> RefName e = refName \<and> \<not> is_skipped chain (ReferenceEntry.ID e) \<and>
     anns = annotations_for chain (ReferenceEntry.ID e)"
  by (induction chain refName es rule: latest_unskipped.induct) (auto split: if_splits)


lemma latest_unskipped_all_skipped:
  "(\<forall>e. Reference e \<in> set es \<and> RefName e = refName \<longrightarrow> is_skipped chain (ReferenceEntry.ID e)) \<Longrightarrow>
     latest_unskipped chain refName es = Inl ErrRSLEntryNotFound"
  by (induction chain refName es rule: latest_unskipped.induct) auto

text \<open>
  C2: a reference entry \<open>E\<close> of the log to which an annotation \<open>A\<close> of the log with
  \<open>Skip\<close> refers is never what \<^verbatim>\<open>GetLatestUnskippedReferenceEntryForRef\<close> returns for the
  reference of \<open>E\<close> (nor is any entry with the id of \<open>E\<close>); and when every reference
  entry of the log for a name is skipped, the query for that name fails with
  \<^verbatim>\<open>ErrRSLEntryNotFound\<close>.
\<close>

theorem skip_dominance:
  "(Reference E \<in> set (rsl r) \<and> Annotation A \<in> set (rsl r) \<and> Skip A \<and>
    ReferenceEntry.ID E \<in> set (RSLEntryIDs A) \<longrightarrow>
      (\<forall>e anns. GetLatestUnskippedReferenceEntryForRef r (RefName E) = Inr (e, anns) \<longrightarrow>
          e \<noteq> E \<and> ReferenceEntry.ID e \<noteq> ReferenceEntry.ID E)) \<and>
   ((\<forall>E'. Reference E' \<in> set (rsl r) \<and> RefName E' = refName \<longrightarrow>
        (\<exists>A'. Annotation A' \<in> set (rsl r) \<and> Skip A' \<and> ReferenceEntry.ID E' \<in> set (RSLEntryIDs A'))) \<longrightarrow>
      GetLatestUnskippedReferenceEntryForRef r refName = Inl ErrRSLEntryNotFound)"
proof (intro conjI impI allI)
  fix e anns
  assume h: "Reference E \<in> set (rsl r) \<and> Annotation A \<in> set (rsl r) \<and> Skip A \<and>
    ReferenceEntry.ID E \<in> set (RSLEntryIDs A)"
    and res: "GetLatestUnskippedReferenceEntryForRef r (RefName E) = Inr (e, anns)"
  from h have sk: "is_skipped (rsl r) (ReferenceEntry.ID E)"
    by (auto simp: is_skipped_iff)
  from res have "\<not> is_skipped (rsl r) (ReferenceEntry.ID e)"
    by (auto simp: GetLatestUnskippedReferenceEntryForRef_def dest: latest_unskipped_Inr)
  with sk show "ReferenceEntry.ID e \<noteq> ReferenceEntry.ID E" by auto
  then show "e \<noteq> E" by auto
next
  assume "\<forall>E'. Reference E' \<in> set (rsl r) \<and> RefName E' = refName \<longrightarrow>
        (\<exists>A'. Annotation A' \<in> set (rsl r) \<and> Skip A' \<and> ReferenceEntry.ID E' \<in> set (RSLEntryIDs A'))"
  then have "\<forall>e. Reference e \<in> set (rsl r) \<and> RefName e = refName \<longrightarrow> is_skipped (rsl r) (ReferenceEntry.ID e)"
    by (simp add: is_skipped_iff)
  then show "GetLatestUnskippedReferenceEntryForRef r refName = Inl ErrRSLEntryNotFound"
    unfolding GetLatestUnskippedReferenceEntryForRef_def by (rule latest_unskipped_all_skipped)
qed

theorem skip_dominance_witness:
  "Reference (main_entry 3 0) \<in> set (rsl newest_skipped) \<and>
   Annotation (revoke 4 3) \<in> set (rsl newest_skipped) \<and> Skip (revoke 4 3) \<and>
   ReferenceEntry.ID (main_entry 3 0) \<in> set (RSLEntryIDs (revoke 4 3)) \<and>
   GetLatestUnskippedReferenceEntryForRef newest_skipped ''refs/heads/main'' = Inr (main_entry 2 0, []) \<and>
   main_entry 2 0 \<noteq> main_entry 3 0 \<and>
   GetLatestUnskippedReferenceEntryForRef all_skipped ''refs/heads/main'' = Inl ErrRSLEntryNotFound"
proof -
  have h: "Reference (main_entry 3 0) \<in> set (rsl newest_skipped) \<and>
      Annotation (revoke 4 3) \<in> set (rsl newest_skipped) \<and> Skip (revoke 4 3) \<and>
      ReferenceEntry.ID (main_entry 3 0) \<in> set (RSLEntryIDs (revoke 4 3))"
    by (simp add: newest_skipped_def log_repository_def three_entries_def main_entry_def revoke_def)
  have n: "RefName (main_entry 3 0) = ''refs/heads/main''"
    by (simp add: main_entry_def)
  have v: "GetLatestUnskippedReferenceEntryForRef newest_skipped ''refs/heads/main'' = Inr (main_entry 2 0, [])"
    by (simp add: GetLatestUnskippedReferenceEntryForRef_def newest_skipped_def log_repository_def
        three_entries_def main_entry_def revoke_def is_skipped_def annotations_for_def RefersTo_def)
  have a0: "\<forall>E'. Reference E' \<in> set (rsl all_skipped) \<longrightarrow>
      is_skipped (rsl all_skipped) (ReferenceEntry.ID E')"
    by (simp add: all_skipped_def log_repository_def three_entries_def main_entry_def revoke_def
        is_skipped_def annotations_for_def RefersTo_def)
  have a: "\<forall>E'. Reference E' \<in> set (rsl all_skipped) \<and> RefName E' = ''refs/heads/main'' \<longrightarrow>
      (\<exists>A'. Annotation A' \<in> set (rsl all_skipped) \<and> Skip A' \<and> ReferenceEntry.ID E' \<in> set (RSLEntryIDs A'))"
    using a0 by (simp add: is_skipped_iff)
  from skip_dominance [of "main_entry 3 0" newest_skipped "revoke 4 3" "''refs/heads/main''"]
    skip_dominance [of "main_entry 3 0" all_skipped "revoke 4 3" "''refs/heads/main''"]
    h n v a
  show ?thesis by auto
qed

subsection \<open>The first entry for a commit\<close>

lemma first_covering_Inr:
  "first_covering r c es found = Inr res \<Longrightarrow>
     (res = found \<and> (\<forall>e'. Reference e' \<in> set es \<longrightarrow> \<not> covers r e' c)) \<or>
     (\<exists>newer older e. es = newer @ Reference e # older \<and> res = Some e \<and> covers r e c \<and>
         (\<forall>e'. Reference e' \<in> set older \<longrightarrow> \<not> covers r e' c))"
proof (induction r c es found arbitrary: res rule: first_covering.induct)
  case (1 r commitID found)
  then show ?case by simp
next
  case (2 r commitID a es found)
  from 2 have "first_covering r commitID es found = Inr res" by simp
  from "2.IH" [OF this] show ?case
  proof
    assume "res = found \<and> (\<forall>e'. Reference e' \<in> set es \<longrightarrow> \<not> covers r e' commitID)"
    then show ?thesis by auto
  next
    assume "\<exists>newer older e. es = newer @ Reference e # older \<and> res = Some e \<and> covers r e commitID \<and>
         (\<forall>e'. Reference e' \<in> set older \<longrightarrow> \<not> covers r e' commitID)"
    then obtain newer older e where
      "es = newer @ Reference e # older" "res = Some e" "covers r e commitID"
      "\<forall>e'. Reference e' \<in> set older \<longrightarrow> \<not> covers r e' commitID" by blast
    then have "Annotation a # es = (Annotation a # newer) @ Reference e # older" by simp
    with \<open>res = Some e\<close> \<open>covers r e commitID\<close> \<open>\<forall>e'. Reference e' \<in> set older \<longrightarrow> \<not> covers r e' commitID\<close>
    show ?thesis by blast
  qed
next
  case (3 r commitID e es found)
  let ?c = "covers r e commitID"
  obtain found' where rec: "first_covering r commitID es found' = Inr res"
    and f': "found' = (if ?c then Some e else found)"
    and kn: "TargetID e \<noteq> commitID \<Longrightarrow> \<exists>b. KnowsCommit r (TargetID e) commitID = Inr b"
    using "3.prems" by (auto simp: covers_def split: if_splits sum.splits)
  have ih: "(res = found' \<and> (\<forall>e'. Reference e' \<in> set es \<longrightarrow> \<not> covers r e' commitID)) \<or>
     (\<exists>newer older e. es = newer @ Reference e # older \<and> res = Some e \<and> covers r e commitID \<and>
         (\<forall>e'. Reference e' \<in> set older \<longrightarrow> \<not> covers r e' commitID))"
  proof (cases "TargetID e = commitID")
    case True
    with rec f' have "first_covering r commitID es (Some e) = Inr res" by (simp add: covers_def)
    from "3.IH"(1) [OF True this] show ?thesis using True f' by (simp add: covers_def)
  next
    case False
    from kn [OF False] obtain b where b: "KnowsCommit r (TargetID e) commitID = Inr b" by blast
    have "found' = (if b then Some e else found)" using f' b False by (auto simp: covers_def)
    with rec have "first_covering r commitID es (if b then Some e else found) = Inr res" by simp
    from "3.IH"(2) [OF False b this] show ?thesis using \<open>found' = (if b then Some e else found)\<close> by simp
  qed
  then show ?case
  proof
    assume a: "res = found' \<and> (\<forall>e'. Reference e' \<in> set es \<longrightarrow> \<not> covers r e' commitID)"
    show ?thesis
    proof (cases ?c)
      case True
      with a f' have "Reference e # es = [] @ Reference e # es" "res = Some e" by auto
      with a True show ?thesis by blast
    next
      case False
      with a f' show ?thesis by auto
    qed
  next
    assume "\<exists>newer older e. es = newer @ Reference e # older \<and> res = Some e \<and> covers r e commitID \<and>
         (\<forall>e'. Reference e' \<in> set older \<longrightarrow> \<not> covers r e' commitID)"
    then obtain newer older e0 where
      "es = newer @ Reference e0 # older" "res = Some e0" "covers r e0 commitID"
      "\<forall>e'. Reference e' \<in> set older \<longrightarrow> \<not> covers r e' commitID" by blast
    then have "Reference e # es = (Reference e # newer) @ Reference e0 # older" by simp
    with \<open>res = Some e0\<close> \<open>covers r e0 commitID\<close> \<open>\<forall>e'. Reference e' \<in> set older \<longrightarrow> \<not> covers r e' commitID\<close>
    show ?thesis by blast
  qed
qed

lemma first_covering_total:
  "(\<forall>e. Reference e \<in> set es \<longrightarrow> TargetID e = c \<or> (\<exists>b. KnowsCommit r (TargetID e) c = Inr b)) \<Longrightarrow>
     \<exists>res. first_covering r c es found = Inr res"
  by (induction r c es found rule: first_covering.induct) auto

text \<open>
  C5: when \<^verbatim>\<open>GetFirstReferenceEntryForCommit\<close> returns an entry for a commit, that entry
  is a reference entry of the chain that covers the commit (its target is the commit
  or has it as an ancestor), no older reference entry of the chain covers it, and the
  annotations returned are those of the chain that refer to the entry; when no
  reference entry of the log covers the commit, the query fails with
  \<^verbatim>\<open>ErrNoRecordOfCommit\<close>; and when some entry covers it (and the ancestry test answers),
  the query returns.
\<close>

theorem GetFirstReferenceEntryForCommit_oldest:
  "(GetFirstReferenceEntryForCommit r commitID = Inr (e, anns) \<longrightarrow>
      (\<exists>newer older. rsl r = newer @ Reference e # older \<and> covers r e commitID \<and>
          (\<forall>e'. Reference e' \<in> set older \<longrightarrow> \<not> covers r e' commitID)) \<and>
      set anns = {a. Annotation a \<in> set (rsl r) \<and> RefersTo a (ReferenceEntry.ID e)}) \<and>
   ((\<forall>e'. Reference e' \<in> set (rsl r) \<longrightarrow>
        TargetID e' \<noteq> commitID \<and> KnowsCommit r (TargetID e') commitID = Inr False) \<longrightarrow>
      GetFirstReferenceEntryForCommit r commitID = Inl ErrNoRecordOfCommit) \<and>
   ((\<forall>e'. Reference e' \<in> set (rsl r) \<longrightarrow>
        TargetID e' = commitID \<or> (\<exists>b. KnowsCommit r (TargetID e') commitID = Inr b)) \<and>
    (\<exists>e'. Reference e' \<in> set (rsl r) \<and> covers r e' commitID) \<longrightarrow>
      (\<exists>e' anns'. GetFirstReferenceEntryForCommit r commitID = Inr (e', anns')))"
proof (intro conjI impI)
  assume res: "GetFirstReferenceEntryForCommit r commitID = Inr (e, anns)"
  then have fc: "first_covering r commitID (rsl r) None = Inr (Some e)"
    and an: "anns = annotations_for (rsl r) (ReferenceEntry.ID e)"
    by (auto simp: GetFirstReferenceEntryForCommit_def split: sum.splits option.splits)
  from first_covering_Inr [OF fc]
  show "\<exists>newer older. rsl r = newer @ Reference e # older \<and> covers r e commitID \<and>
          (\<forall>e'. Reference e' \<in> set older \<longrightarrow> \<not> covers r e' commitID)"
    by auto
  from an show "set anns = {a. Annotation a \<in> set (rsl r) \<and> RefersTo a (ReferenceEntry.ID e)}"
    by (auto simp: annotations_for_def set_annotations_of)
next
  assume none: "\<forall>e'. Reference e' \<in> set (rsl r) \<longrightarrow>
        TargetID e' \<noteq> commitID \<and> KnowsCommit r (TargetID e') commitID = Inr False"
  then have tot: "\<forall>e. Reference e \<in> set (rsl r) \<longrightarrow>
        TargetID e = commitID \<or> (\<exists>b. KnowsCommit r (TargetID e) commitID = Inr b)" by blast
  from first_covering_total [OF tot] obtain res where
    fc: "first_covering r commitID (rsl r) None = Inr res" by blast
  from none have nc: "\<forall>e'. Reference e' \<in> set (rsl r) \<longrightarrow> \<not> covers r e' commitID"
    by (simp add: covers_def)
  from first_covering_Inr [OF fc] nc have "res = None" by auto
  with fc show "GetFirstReferenceEntryForCommit r commitID = Inl ErrNoRecordOfCommit"
    by (simp add: GetFirstReferenceEntryForCommit_def)
next
  assume h: "(\<forall>e'. Reference e' \<in> set (rsl r) \<longrightarrow>
        TargetID e' = commitID \<or> (\<exists>b. KnowsCommit r (TargetID e') commitID = Inr b)) \<and>
    (\<exists>e'. Reference e' \<in> set (rsl r) \<and> covers r e' commitID)"
  then have tot: "\<forall>e. Reference e \<in> set (rsl r) \<longrightarrow>
        TargetID e = commitID \<or> (\<exists>b. KnowsCommit r (TargetID e) commitID = Inr b)" by blast
  from first_covering_total [OF tot] obtain res where
    fc: "first_covering r commitID (rsl r) None = Inr res" by blast
  from first_covering_Inr [OF fc] h obtain e0 where "res = Some e0" by auto
  with fc show "\<exists>e' anns'. GetFirstReferenceEntryForCommit r commitID = Inr (e', anns')"
    by (simp add: GetFirstReferenceEntryForCommit_def)
qed

lemma two_branches_result:
  "GetFirstReferenceEntryForCommit two_branches 1 = Inr (main_entry 10 2, [])"
  by (simp add: GetFirstReferenceEntryForCommit_def two_branches_def log_repository_def
      main_entry_def feature_entry_def KnowsCommit_def linear_history_def annotations_for_def)

theorem GetFirstReferenceEntryForCommit_oldest_witness:
  "GetFirstReferenceEntryForCommit two_branches 1 = Inr (main_entry 10 2, []) \<and>
   (\<exists>newer older. rsl two_branches = newer @ Reference (main_entry 10 2) # older \<and>
       covers two_branches (main_entry 10 2) 1 \<and>
       (\<forall>e'. Reference e' \<in> set older \<longrightarrow> \<not> covers two_branches e' 1)) \<and>
   GetFirstReferenceEntryForCommit two_branches 3 = Inl ErrNoRecordOfCommit"
proof -
  have none: "\<forall>e'. Reference e' \<in> set (rsl two_branches) \<longrightarrow>
        TargetID e' \<noteq> 3 \<and> KnowsCommit two_branches (TargetID e') 3 = Inr False"
    by (auto simp: two_branches_def log_repository_def main_entry_def feature_entry_def
        KnowsCommit_def linear_history_def)
  from GetFirstReferenceEntryForCommit_oldest [of two_branches 1 "main_entry 10 2" "[]" ]
    GetFirstReferenceEntryForCommit_oldest [of two_branches 3 "main_entry 10 2" "[]"]
    two_branches_result none
  show ?thesis by blast
qed

section \<open>Properties of recording\<close>

subsection \<open>Recording a reference twice\<close>


lemma annotations_of_Reference [simp]:
  "annotations_for (Reference e # chain) h = annotations_for chain h"
  "is_skipped (Reference e # chain) h = is_skipped chain h"
  by (simp_all add: annotations_for_def is_skipped_def)








subsection \<open>Recording an annotation\<close>







end
